theory Spec2Isabelle
  imports Main "HOL-Library.AList"
begin

section \<open>Presubmit dispatch of groups of related changes (clssender.go)\<close>

text \<open>
  The development embeds \<^verbatim>\<open>src/go/src/presubmit/clssender.go\<close>: the grouper
  \<^verbatim>\<open>combineCLList\<close>, the trust predicate \<^verbatim>\<open>isTrustedContributor\<close>,
  \<^verbatim>\<open>formatCLString\<close> and the dispatcher \<^verbatim>\<open>sendCLsToPresubmitTest\<close>.
  Go strings are byte sequences and are modelled as \<open>string\<close> (a list of 8-bit
  characters). Go's \<^verbatim>\<open>int\<close> is modelled as \<open>int\<close>: change and patchset numbers are
  only stored and printed, and the only arithmetic is the counter \<^verbatim>\<open>clsSent\<close>, which
  starts at the zero value of the struct and adds the lengths of slices held in memory, far
  below the point where a machine integer would wrap.
\<close>

subsection \<open>Values of the collaborating packages\<close>

text \<open>
  A Go \<^verbatim>\<open>error\<close> value that is not nil; only its message is ever used (it is
  printed). A possibly-nil error is an \<open>error option\<close>.
\<close>

datatype error = Error string

fun errorString :: "error \<Rightarrow> string" where
  "errorString (Error m) = m"

text \<open>
  Modelled from the spec: the presubmit directive of package \<^verbatim>\<open>v.io/jiri/gerrit\<close>
  (type \<^verbatim>\<open>PresubmitTestType\<close>), which is declared outside this repository; the data model
  gives its two values, skip (\<^verbatim>\<open>PresubmitTestTypeNone\<close>) and default.
\<close>

datatype PresubmitTestType = PresubmitTestTypeNone | PresubmitTestTypeAll

text \<open>
  Modelled from the spec: a change record of package \<^verbatim>\<open>v.io/jiri/gerrit\<close>
  (type \<^verbatim>\<open>Change\<close>), declared outside this repository; the code reads its reference string
  (\<^verbatim>\<open>Reference()\<close>), its owner's address (\<^verbatim>\<open>OwnerEmail()\<close>) and its directive
  (\<^verbatim>\<open>PresubmitTest\<close>).
\<close>

record Change =
  Reference :: string
  OwnerEmail :: string
  PresubmitTest :: PresubmitTestType

type_synonym CLList = "Change list"

type_synonym clNumber = int
type_synonym patchset = int

text \<open>
  \<^verbatim>\<open>gerrit.ParseRefString\<close> is not part of this repository; every function that calls it
  takes it as the parameter \<open>prs\<close>: from a reference string to the pair of change number and
  patchset number, or an error.
\<close>

type_synonym refParser = "string \<Rightarrow> error + (int \<times> int)"

subsection \<open>Go library functions used by the code\<close>

definition newline :: string where
  "newline = [CHR 0x0A]"

text \<open>\<^verbatim>\<open>strings.HasSuffix(s, suffix)\<close>: a comparison of the last bytes of \<open>s\<close>.\<close>

definition HasSuffix :: "string \<Rightarrow> string \<Rightarrow> bool" where
  "HasSuffix s suf \<longleftrightarrow>
     length s \<ge> length suf \<and> drop (length s - length suf) s = suf"

text \<open>\<^verbatim>\<open>strings.Join(elems, sep)\<close>.\<close>

fun Join :: "string list \<Rightarrow> string \<Rightarrow> string" where
  "Join [] sep = []"
| "Join [x] sep = x"
| "Join (x # y # ys) sep = x @ sep @ Join (y # ys) sep"

text \<open>The verb \<^verbatim>\<open>%d\<close> of \<^verbatim>\<open>fmt\<close>: a signed decimal numeral.\<close>

definition digitChar :: "nat \<Rightarrow> char" where
  "digitChar d = ''0123456789'' ! d"

fun natDigits :: "nat \<Rightarrow> string" where
  "natDigits n = (if n < 10 then [digitChar n] else natDigits (n div 10) @ [digitChar (n mod 10)])"

declare natDigits.simps [simp del]

definition fmtInt :: "int \<Rightarrow> string" where
  "fmtInt i = (if i < 0 then ''-'' @ natDigits (nat (- i)) else natDigits (nat i))"

text \<open>
  A Go map from change number to patchset number. \<open>None\<close> is the nil map (the zero value
  of the type); \<open>Some m\<close> is an allocated map whose entries are the association list \<open>m\<close>,
  with one pair for each key.
\<close>

type_synonym gomap = "(clNumber \<times> patchset) list option"

fun len_map :: "gomap \<Rightarrow> nat" where
  "len_map None = 0"
| "len_map (Some m) = length m"

text \<open>
  The assignment \<^verbatim>\<open>m[k] = v\<close>. Go panics when \<^verbatim>\<open>m\<close> is nil; \<^verbatim>\<open>combineCLList\<close>
  writes only to the map it has allocated itself (lemma \<open>combineLoop_ok\<close> below), so the
  second equation is never used by the program.
\<close>

fun mapassign :: "gomap \<Rightarrow> clNumber \<Rightarrow> patchset \<Rightarrow> gomap" where
  "mapassign (Some m) k v = Some (AList.update k v m)"
| "mapassign None k v = None"

subsection \<open>The trust predicate and the label of one change\<close>

definition isTrustedContributor :: "string \<Rightarrow> bool" where
  "isTrustedContributor emailAddress = HasSuffix emailAddress ''@google.com''"

definition formatCLString :: "int \<Rightarrow> int \<Rightarrow> string" where
  "formatCLString clNumber patchsetNumber = fmtInt clNumber @ ''/'' @ fmtInt patchsetNumber"

subsection \<open>Observable effects\<close>

text \<open>
  What a run does to the outside: lines written to standard output and standard error, and
  the calls of the four operations of the \<^verbatim>\<open>workflow\<close> interface, each with its arguments
  and what it returned. Every function of the model returns the list of events it produced,
  in order.
\<close>

datatype event =
    Stdout string
  | Stderr string
  | CallListTestsToRun "string list"
  | CallRemoveOutdatedBuilds gomap "error option list"
  | CallAddPresubmitTestBuild CLList "string list" "error option"
  | CallPostResults string "string list" bool "error option"

fun isPortCall :: "event \<Rightarrow> bool" where
  "isPortCall (Stdout l) = False"
| "isPortCall (Stderr l) = False"
| "isPortCall e = True"

definition portCalls :: "event list \<Rightarrow> event list" where
  "portCalls evs = filter isPortCall evs"

fun isFailedPost :: "event \<Rightarrow> bool" where
  "isFailedPost (CallPostResults m r v (Some e)) = True"
| "isFailedPost e = False"

fun isListTests :: "event \<Rightarrow> bool" where
  "isListTests (CallListTestsToRun ts) = True"
| "isListTests e = False"

fun isAddBuild :: "event \<Rightarrow> bool" where
  "isAddBuild (CallAddPresubmitTestBuild cl ts r) = True"
| "isAddBuild e = False"

fun isPost :: "event \<Rightarrow> bool" where
  "isPost (CallPostResults m r v e) = True"
| "isPost e = False"

text \<open>What a call of \<open>postResults\<close> returned; \<open>None\<close> for every other event.\<close>

fun postResult :: "event \<Rightarrow> error option" where
  "postResult (CallPostResults m r v e) = e"
| "postResult e = None"

subsection \<open>The multi-part grouper\<close>

record multiPartCLInfo =
  clMap :: gomap
  clString :: string
  skipPresubmitTest :: bool
  hasTrustedOwner :: bool
  refs :: "string list"

text \<open>The zero value \<^verbatim>\<open>multiPartCLInfo{}\<close>.\<close>

definition multiPartCLInfo_zero :: multiPartCLInfo where
  "multiPartCLInfo_zero =
     \<lparr>clMap = None, clString = [], skipPresubmitTest = False, hasTrustedOwner = False,
      refs = []\<rparr>"

text \<open>
  The loop of \<^verbatim>\<open>combineCLList\<close> over the records, on the locals \<^verbatim>\<open>result\<close> and
  \<^verbatim>\<open>clStrings\<close>. \<open>Inl err\<close> is the early return at a reference that does not parse.
\<close>

fun combineLoop ::
  "refParser \<Rightarrow> CLList \<Rightarrow> multiPartCLInfo \<Rightarrow> string list \<Rightarrow>
     error + (multiPartCLInfo \<times> string list)" where
  "combineLoop prs [] result clStrings = Inr (result, clStrings)"
| "combineLoop prs (curCL # rest) result clStrings =
     (case prs (Reference curCL) of
        Inl err \<Rightarrow> Inl err
      | Inr (cl, ps) \<Rightarrow>
          (let result1 = (if PresubmitTest curCL = PresubmitTestTypeNone
                          then result\<lparr>skipPresubmitTest := True\<rparr> else result);
               result2 = (if \<not> isTrustedContributor (OwnerEmail curCL)
                          then result1\<lparr>hasTrustedOwner := False\<rparr> else result1);
               clStrings1 = clStrings @ [formatCLString cl ps];
               result3 = result2\<lparr>clMap := mapassign (clMap result2) cl ps\<rparr>;
               result4 = result3\<lparr>refs := refs result3 @ [Reference curCL]\<rparr>
           in combineLoop prs rest result4 clStrings1))"

definition combineCLList :: "refParser \<Rightarrow> CLList \<Rightarrow> event list \<times> multiPartCLInfo" where
  "combineCLList prs curCLList =
     (let result = multiPartCLInfo_zero\<lparr>hasTrustedOwner := True, clMap := Some []\<rparr>
      in case combineLoop prs curCLList result [] of
           Inl err \<Rightarrow> ([Stderr (errorString err @ newline)], multiPartCLInfo_zero)
         | Inr (result', clStrings) \<Rightarrow> ([], result'\<lparr>clString := Join clStrings '', ''\<rparr>))"

subsection \<open>The workflow interface and the dispatcher\<close>

text \<open>
  An implementation of the interface \<^verbatim>\<open>workflow\<close>: its four methods, each a function of
  the implementation's own state \<open>'w\<close> that returns its result and the state after the call.
\<close>

record 'w workflow =
  listTestsToRun :: "'w \<Rightarrow> string list \<times> 'w"
  removeOutdatedBuilds :: "gomap \<Rightarrow> 'w \<Rightarrow> error option list \<times> 'w"
  addPresubmitTestBuild :: "CLList \<Rightarrow> string list \<Rightarrow> 'w \<Rightarrow> error option \<times> 'w"
  postResults :: "string \<Rightarrow> string list \<Rightarrow> bool \<Rightarrow> 'w \<Rightarrow> error option \<times> 'w"

text \<open>The struct \<^verbatim>\<open>clsSender\<close>; \<open>worker\<close> is the state of the workflow implementation.\<close>

record 'w clsSender =
  clLists :: "CLList list"
  clsSent :: int
  worker :: 'w

text \<open>The lines that the loop over the result of \<^verbatim>\<open>removeOutdatedBuilds\<close> prints.\<close>

fun logErrors :: "error option list \<Rightarrow> event list" where
  "logErrors [] = []"
| "logErrors (None # errs) = logErrors errs"
| "logErrors (Some err # errs) = Stderr (errorString err @ newline) # logErrors errs"

text \<open>
  One iteration of the loop of \<^verbatim>\<open>sendCLsToPresubmitTest\<close>. The middle component of the
  result is \<open>Some err\<close> when the iteration executes \<^verbatim>\<open>return err\<close> and \<open>None\<close> when it
  ends in \<^verbatim>\<open>continue\<close> or reaches the end of the body.
\<close>

definition loopBody ::
  "refParser \<Rightarrow> 'w workflow \<Rightarrow> CLList \<Rightarrow> 'w clsSender \<Rightarrow>
     event list \<times> error option \<times> 'w clsSender" where
  "loopBody prs wk curCLList s =
     (case combineCLList prs curCLList of (log0, cls) \<Rightarrow>
      if len_map (clMap cls) = 0 then
        (log0 @ [Stdout (''Skipping empty CL set'' @ newline)], None, s)
      else if skipPresubmitTest cls then
        (case postResults wk (''Presubmit tests skipped.'' @ newline) (refs cls) True (worker s) of
           (err, w1) \<Rightarrow>
             (log0 @ [Stdout (''Skipping '' @ clString cls @ '' because presubmit=none'' @ newline),
                      CallPostResults (''Presubmit tests skipped.'' @ newline) (refs cls) True err],
              err, s\<lparr>worker := w1\<rparr>))
      else
        (case listTestsToRun wk (worker s) of (tests, w1) \<Rightarrow>
         if length tests = 0 then
           (case postResults wk (''No tests found.'' @ newline) (refs cls) True w1 of
              (err, w2) \<Rightarrow>
                (log0 @ [CallListTestsToRun tests,
                         Stdout (''Skipping '' @ clString cls @ '' because no tests found'' @ newline),
                         CallPostResults (''No tests found.'' @ newline) (refs cls) True err],
                 err, s\<lparr>worker := w2\<rparr>))
         else if \<not> hasTrustedOwner cls then
           (case postResults wk (''Tell Freenode#fuchsia to kick the presubmit tests.'' @ newline)
                   (refs cls) False w1 of
              (err, w2) \<Rightarrow>
                (log0 @ [CallListTestsToRun tests,
                         Stdout (''Skipping '' @ clString cls
                                 @ '' because the owner is an external contributor'' @ newline),
                         CallPostResults
                           (''Tell Freenode#fuchsia to kick the presubmit tests.'' @ newline)
                           (refs cls) False err],
                 err, s\<lparr>worker := w2\<rparr>))
         else
           (case removeOutdatedBuilds wk (clMap cls) w1 of (errs, w2) \<Rightarrow>
            case addPresubmitTestBuild wk curCLList tests w2 of (err, w3) \<Rightarrow>
              (log0 @ [CallListTestsToRun tests, CallRemoveOutdatedBuilds (clMap cls) errs]
                 @ logErrors errs
                 @ [Stdout (''Sending '' @ clString cls @ '' to presubmit test'' @ newline),
                    CallAddPresubmitTestBuild curCLList tests err]
                 @ (case err of
                      Some e \<Rightarrow>
                        [Stderr (''addPresubmitTestBuild failed: '' @ errorString e @ newline)]
                    | None \<Rightarrow> []),
               None,
               (case err of
                  Some e \<Rightarrow> s\<lparr>worker := w3\<rparr>
                | None \<Rightarrow> s\<lparr>worker := w3, clsSent := clsSent s + int (length curCLList)\<rparr>)))))"

text \<open>The loop over the batches: it stops at the first iteration that returns an error.\<close>

fun sendLoop ::
  "refParser \<Rightarrow> 'w workflow \<Rightarrow> CLList list \<Rightarrow> 'w clsSender \<Rightarrow>
     event list \<times> error option \<times> 'w clsSender" where
  "sendLoop prs wk [] s = ([], None, s)"
| "sendLoop prs wk (curCLList # rest) s =
     (case loopBody prs wk curCLList s of
        (evs, Some err, s1) \<Rightarrow> (evs, Some err, s1)
      | (evs, None, s1) \<Rightarrow>
          (case sendLoop prs wk rest s1 of (evs', r, s2) \<Rightarrow> (evs @ evs', r, s2)))"

definition sendCLsToPresubmitTest ::
  "refParser \<Rightarrow> 'w workflow \<Rightarrow> 'w clsSender \<Rightarrow> event list \<times> error option \<times> 'w clsSender" where
  "sendCLsToPresubmitTest prs wk s = sendLoop prs wk (clLists s) s"

subsection \<open>Notions used to state the properties\<close>

text \<open>Every reference of the batch parses.\<close>

definition parsesAll :: "refParser \<Rightarrow> CLList \<Rightarrow> bool" where
  "parsesAll prs cl \<longleftrightarrow> (\<forall>c \<in> set cl. \<not> isl (prs (Reference c)))"

text \<open>The label and the map entry that a record with a parsable reference contributes.\<close>

definition changeLabel :: "refParser \<Rightarrow> Change \<Rightarrow> string" where
  "changeLabel prs c =
     (case prs (Reference c) of Inr (cl, ps) \<Rightarrow> formatCLString cl ps | Inl err \<Rightarrow> [])"

definition upsert ::
  "refParser \<Rightarrow> (clNumber \<times> patchset) list \<Rightarrow> Change \<Rightarrow> (clNumber \<times> patchset) list" where
  "upsert prs m c =
     (case prs (Reference c) of Inr (cl, ps) \<Rightarrow> AList.update cl ps m | Inl err \<Rightarrow> m)"

text \<open>
  The conditions under which an iteration reaches the last part of the loop body (cancel the
  outdated builds, then send): the group is not empty, no member asks to skip, the query
  returns tests, and every owner is trusted.
\<close>

definition proceeds :: "refParser \<Rightarrow> 'w workflow \<Rightarrow> CLList \<Rightarrow> 'w clsSender \<Rightarrow> bool" where
  "proceeds prs wk cl s \<longleftrightarrow>
     (let cls = snd (combineCLList prs cl)
      in len_map (clMap cls) \<noteq> 0 \<and> \<not> skipPresubmitTest cls
         \<and> fst (listTestsToRun wk (worker s)) \<noteq> [] \<and> hasTrustedOwner cls)"

text \<open>
  The three calls of the last part of the loop body, each on the state that the call before it
  left: the query, the cancellation of outdated builds, the submission.
\<close>

definition afterQuery :: "'w workflow \<Rightarrow> 'w clsSender \<Rightarrow> string list \<times> 'w" where
  "afterQuery wk s = listTestsToRun wk (worker s)"

definition afterCancel ::
  "refParser \<Rightarrow> 'w workflow \<Rightarrow> CLList \<Rightarrow> 'w clsSender \<Rightarrow> error option list \<times> 'w" where
  "afterCancel prs wk cl s =
     removeOutdatedBuilds wk (clMap (snd (combineCLList prs cl))) (snd (afterQuery wk s))"

definition afterSubmit ::
  "refParser \<Rightarrow> 'w workflow \<Rightarrow> CLList \<Rightarrow> 'w clsSender \<Rightarrow> error option \<times> 'w" where
  "afterSubmit prs wk cl s =
     addPresubmitTestBuild wk cl (fst (afterQuery wk s)) (snd (afterCancel prs wk cl s))"

subsection \<open>Test doubles\<close>

text \<open>
  A workflow for concrete runs: the query returns \<open>tests\<close>, the cancellation returns
  \<open>rerrs\<close>, the submission returns \<open>aerr\<close>, and the state is the queue of the results
  that the coming calls of \<open>postResults\<close> return (success once the queue is empty).
\<close>

definition mockWorkflow ::
  "string list \<Rightarrow> error option list \<Rightarrow> error option \<Rightarrow> (error option list) workflow" where
  "mockWorkflow tests rerrs aerr =
     \<lparr>listTestsToRun = (\<lambda>q. (tests, q)),
      removeOutdatedBuilds = (\<lambda>m q. (rerrs, q)),
      addPresubmitTestBuild = (\<lambda>cl ts q. (aerr, q)),
      postResults = (\<lambda>m r v q. case q of [] \<Rightarrow> (None, []) | e # q' \<Rightarrow> (e, q'))\<rparr>"

text \<open>A reference parser that knows two references and rejects every other string.\<close>

definition mockParse :: refParser where
  "mockParse r =
     (if r = ''refs/changes/01/1/5'' then Inr (1, 5)
      else if r = ''refs/changes/02/2/7'' then Inr (2, 7)
      else Inl (Error (''invalid ref: '' @ r)))"

definition mkChange :: "string \<Rightarrow> string \<Rightarrow> PresubmitTestType \<Rightarrow> Change" where
  "mkChange r e p = \<lparr>Reference = r, OwnerEmail = e, PresubmitTest = p\<rparr>"

definition cl15 :: Change where
  "cl15 = mkChange ''refs/changes/01/1/5'' ''a@google.com'' PresubmitTestTypeAll"

definition cl27 :: Change where
  "cl27 = mkChange ''refs/changes/02/2/7'' ''b@google.com'' PresubmitTestTypeAll"

definition cl27skip :: Change where
  "cl27skip = mkChange ''refs/changes/02/2/7'' ''b@google.com'' PresubmitTestTypeNone"

definition cl27evil :: Change where
  "cl27evil = mkChange ''refs/changes/02/2/7'' ''a@evil.com'' PresubmitTestTypeAll"

definition clBad :: Change where
  "clBad = mkChange ''garbage'' ''a@google.com'' PresubmitTestTypeAll"

definition clSkipEvil :: Change where
  "clSkipEvil = mkChange ''refs/changes/02/2/7'' ''a@evil.com'' PresubmitTestTypeNone"

definition sender0 :: "CLList list \<Rightarrow> error option list \<Rightarrow> (error option list) clsSender" where
  "sender0 batches q = \<lparr>clLists = batches, clsSent = 0, worker = q\<rparr>"

section \<open>Auxiliary facts\<close>

lemmas mock_defs = mockParse_def mockWorkflow_def mkChange_def cl15_def cl27_def cl27skip_def
  cl27evil_def clSkipEvil_def clBad_def sender0_def

lemmas fmt_defs = changeLabel_def formatCLString_def fmtInt_def natDigits.simps digitChar_def

lemmas eval_defs = combineCLList_def multiPartCLInfo_zero_def Let_def isTrustedContributor_def
  HasSuffix_def newline_def

lemmas run_defs = loopBody_def eval_defs mock_defs fmt_defs

lemmas call_defs = afterQuery_def afterCancel_def afterSubmit_def

subsection \<open>The grouper on a batch\<close>

lemma update_not_Nil: "AList.update k v m \<noteq> []"
  by (cases m) auto

lemma combineLoop_ok:
  "parsesAll prs cl \<Longrightarrow> clMap result = Some m \<Longrightarrow>
   combineLoop prs cl result strs =
     Inr (\<lparr>clMap = Some (foldl (upsert prs) m cl),
          clString = clString result,
          skipPresubmitTest = (skipPresubmitTest result \<or> (\<exists>c \<in> set cl. PresubmitTest c = PresubmitTestTypeNone)),
          hasTrustedOwner = (hasTrustedOwner result \<and> (\<forall>c \<in> set cl. isTrustedContributor (OwnerEmail c))),
          refs = refs result @ map Reference cl\<rparr>,
          strs @ map (changeLabel prs) cl)"
proof (induction cl arbitrary: result strs m)
  case Nil
  then show ?case by simp
next
  case (Cons c cl)
  from Cons.prems(1) obtain n p where np: "prs (Reference c) = Inr (n, p)"
    by (cases "prs (Reference c)") (auto simp: parsesAll_def)
  from Cons.prems(1) have rest: "parsesAll prs cl" by (simp add: parsesAll_def)
  show ?case
    using np Cons.prems(2)
    by (simp add: Let_def Cons.IH [OF rest] upsert_def changeLabel_def) 
qed

lemma combineLoop_fail:
  "\<not> parsesAll prs cl \<Longrightarrow>
   \<exists>c err. c \<in> set cl \<and> prs (Reference c) = Inl err \<and> combineLoop prs cl result strs = Inl err"
proof (induction cl arbitrary: result strs)
  case Nil
  then show ?case by (simp add: parsesAll_def)
next
  case (Cons c cl)
  show ?case
  proof (cases "prs (Reference c)")
    case (Inl err)
    then show ?thesis by auto
  next
    case (Inr np)
    with Cons.prems have "\<not> parsesAll prs cl" by (simp add: parsesAll_def)
    from Cons.IH [OF this] Inr show ?thesis
      by (cases np) (simp add: Let_def, blast)
  qed
qed

lemma foldl_upsert_not_Nil: "m \<noteq> [] \<Longrightarrow> foldl (upsert prs) m cl \<noteq> []"
  by (induction cl arbitrary: m) (auto simp: upsert_def update_not_Nil split: sum.splits)

lemma foldl_upsert_distinct:
  "distinct (map fst m) \<Longrightarrow> distinct (map fst (foldl (upsert prs) m cl))"
  by (induction cl arbitrary: m) (auto simp: upsert_def distinct_update split: sum.splits)

lemma combineCLList_ok:
  assumes "parsesAll prs cl"
  shows "combineCLList prs cl =
     ([], \<lparr>clMap = Some (foldl (upsert prs) [] cl),
          clString = Join (map (changeLabel prs) cl) '', '',
          skipPresubmitTest = (\<exists>c \<in> set cl. PresubmitTest c = PresubmitTestTypeNone),
          hasTrustedOwner = (\<forall>c \<in> set cl. isTrustedContributor (OwnerEmail c)),
          refs = map Reference cl\<rparr>)"
  by (simp add: combineCLList_def multiPartCLInfo_zero_def combineLoop_ok [OF assms])

text \<open>The map of a group has one entry for each key, so its length is the number of keys.\<close>

lemma combineCLList_clMap_distinct:
  assumes "parsesAll prs cl"
  shows "\<exists>m. clMap (snd (combineCLList prs cl)) = Some m \<and> distinct (map fst m)"
  by (simp add: combineCLList_ok [OF assms] foldl_upsert_distinct)

lemma combineCLList_fail:
  assumes "\<not> parsesAll prs cl"
  shows "\<exists>c err. c \<in> set cl \<and> prs (Reference c) = Inl err \<and>
     combineCLList prs cl = ([Stderr (errorString err @ newline)], multiPartCLInfo_zero)"
proof -
  from combineLoop_fail [OF assms]
  obtain c err where "c \<in> set cl" "prs (Reference c) = Inl err"
    "combineLoop prs cl (multiPartCLInfo_zero\<lparr>hasTrustedOwner := True, clMap := Some []\<rparr>) [] = Inl err"
    by blast
  then show ?thesis by (auto simp: combineCLList_def)
qed

lemma combineCLList_nonempty:
  assumes "parsesAll prs cl" "cl \<noteq> []"
  shows "len_map (clMap (snd (combineCLList prs cl))) \<noteq> 0"
proof -
  obtain c cs where cl: "cl = c # cs" using assms(2) by (cases cl) auto
  from assms(1) obtain n p where "prs (Reference c) = Inr (n, p)"
    by (cases "prs (Reference c)") (auto simp: parsesAll_def cl)
  then have "foldl (upsert prs) [] cl \<noteq> []"
    by (simp add: cl upsert_def foldl_upsert_not_Nil)
  then show ?thesis by (simp add: combineCLList_ok [OF assms(1)])
qed

lemma loopBody_empty:
  "len_map (clMap (snd (combineCLList prs cl))) = 0 \<Longrightarrow>
   loopBody prs wk cl s =
     (fst (combineCLList prs cl) @ [Stdout (''Skipping empty CL set'' @ newline)], None, s)"
  by (cases "combineCLList prs cl") (simp add: loopBody_def)

lemma loopBody_skip:
  assumes "len_map (clMap cls) \<noteq> 0" "combineCLList prs cl = ([], cls)" "skipPresubmitTest cls"
    and "postResults wk (''Presubmit tests skipped.'' @ newline) (refs cls) True (worker s) = (err, w1)"
  shows "loopBody prs wk cl s =
     ([Stdout (''Skipping '' @ clString cls @ '' because presubmit=none'' @ newline),
       CallPostResults (''Presubmit tests skipped.'' @ newline) (refs cls) True err],
      err, s\<lparr>worker := w1\<rparr>)"
  using assms by (simp add: loopBody_def)

lemma loopBody_notests:
  assumes "len_map (clMap cls) \<noteq> 0" "combineCLList prs cl = ([], cls)" "\<not> skipPresubmitTest cls"
    and "listTestsToRun wk (worker s) = ([], w1)"
    and "postResults wk (''No tests found.'' @ newline) (refs cls) True w1 = (err, w2)"
  shows "loopBody prs wk cl s =
     ([CallListTestsToRun [],
       Stdout (''Skipping '' @ clString cls @ '' because no tests found'' @ newline),
       CallPostResults (''No tests found.'' @ newline) (refs cls) True err],
      err, s\<lparr>worker := w2\<rparr>)"
  using assms by (simp add: loopBody_def)

lemma loopBody_untrusted:
  assumes "len_map (clMap cls) \<noteq> 0" "combineCLList prs cl = ([], cls)" "\<not> skipPresubmitTest cls"
    and "listTestsToRun wk (worker s) = (tests, w1)" "tests \<noteq> []" "\<not> hasTrustedOwner cls"
    and "postResults wk (''Tell Freenode#fuchsia to kick the presubmit tests.'' @ newline)
           (refs cls) False w1 = (err, w2)"
  shows "loopBody prs wk cl s =
     ([CallListTestsToRun tests,
       Stdout (''Skipping '' @ clString cls @ '' because the owner is an external contributor''
               @ newline),
       CallPostResults (''Tell Freenode#fuchsia to kick the presubmit tests.'' @ newline)
         (refs cls) False err],
      err, s\<lparr>worker := w2\<rparr>)"
  using assms by (simp add: loopBody_def)

lemma loopBody_proceed:
  assumes "len_map (clMap cls) \<noteq> 0" "combineCLList prs cl = (log0, cls)" "\<not> skipPresubmitTest cls"
    and "listTestsToRun wk (worker s) = (tests, w1)" "tests \<noteq> []" "hasTrustedOwner cls"
    and "removeOutdatedBuilds wk (clMap cls) w1 = (errs, w2)"
    and "addPresubmitTestBuild wk cl tests w2 = (err, w3)"
  shows "loopBody prs wk cl s =
     (log0 @ [CallListTestsToRun tests, CallRemoveOutdatedBuilds (clMap cls) errs]
        @ logErrors errs
        @ [Stdout (''Sending '' @ clString cls @ '' to presubmit test'' @ newline),
           CallAddPresubmitTestBuild cl tests err]
        @ (case err of
             Some e \<Rightarrow> [Stderr (''addPresubmitTestBuild failed: '' @ errorString e @ newline)]
           | None \<Rightarrow> []),
      None,
      (case err of
         Some e \<Rightarrow> s\<lparr>worker := w3\<rparr>
       | None \<Rightarrow> s\<lparr>worker := w3, clsSent := clsSent s + int (length cl)\<rparr>))"
  using assms by (simp add: loopBody_def)

lemma portCalls_logErrors: "portCalls (logErrors errs) = []"
  by (induction errs rule: logErrors.induct) (simp_all add: portCalls_def)

lemma logErrors_mem: "Some e \<in> set errs \<Longrightarrow> Stderr (errorString e @ newline) \<in> set (logErrors errs)"
  by (induction errs rule: logErrors.induct) auto

lemma sendLoop_append:
  "sendLoop prs wk (xs @ ys) s =
     (case sendLoop prs wk xs s of
        (evs, Some err, s1) \<Rightarrow> (evs, Some err, s1)
      | (evs, None, s1) \<Rightarrow>
          (case sendLoop prs wk ys s1 of (evs', r, s2) \<Rightarrow> (evs @ evs', r, s2)))"
  by (induction xs arbitrary: s) (auto split: prod.splits option.splits)

subsection \<open>One iteration and the whole loop\<close>

lemma combineCLList_log: "e \<in> set (fst (combineCLList prs cl)) \<Longrightarrow> \<exists>l. e = Stderr l"
  by (cases "parsesAll prs cl") (use combineCLList_ok combineCLList_fail in fastforce)+

lemma logErrors_log: "e \<in> set (logErrors errs) \<Longrightarrow> \<exists>l. e = Stderr l"
  by (induction errs rule: logErrors.induct) auto

lemma loopBody_post:
  assumes "CallPostResults m r v e \<in> set (fst (loopBody prs wk cl s))"
  shows "fst (snd (loopBody prs wk cl s)) = e
         \<and> last (fst (loopBody prs wk cl s)) = CallPostResults m r v e"
proof -
  obtain log0 cls where c: "combineCLList prs cl = (log0, cls)" by (cases "combineCLList prs cl")
  have l0: "\<And>m r v e. CallPostResults m r v e \<notin> set log0"
    using combineCLList_log [of _ prs cl] c by fastforce
  have l1: "\<And>m r v e errs. CallPostResults m r v e \<notin> set (logErrors errs)"
    using logErrors_log by fastforce
  show ?thesis
    using assms c l0 l1
    by (auto simp: loopBody_def split: prod.splits if_splits option.splits)
qed

lemma loopBody_last:
  "fst (loopBody prs wk cl s) \<noteq> []
   \<and> fst (snd (loopBody prs wk cl s)) = postResult (last (fst (loopBody prs wk cl s)))"
  by (simp add: loopBody_def split: prod.splits option.splits)

lemma loopBody_return:
  assumes "fst (snd (loopBody prs wk cl s)) = Some err"
  shows "\<exists>m r v. CallPostResults m r v (Some err) \<in> set (fst (loopBody prs wk cl s))"
proof -
  from assms loopBody_last [of prs wk cl s]
  have ne: "fst (loopBody prs wk cl s) \<noteq> []"
    and p: "postResult (last (fst (loopBody prs wk cl s))) = Some err"
    by simp_all
  from p obtain m r v where "last (fst (loopBody prs wk cl s)) = CallPostResults m r v (Some err)"
    by (cases "last (fst (loopBody prs wk cl s))") auto
  with ne show ?thesis by (metis last_in_set)
qed

lemma sendLoop_return:
  "fst (snd (sendLoop prs wk bs s)) = Some err \<Longrightarrow>
   \<exists>m r v. CallPostResults m r v (Some err) \<in> set (fst (sendLoop prs wk bs s))"
proof (induction bs arbitrary: s)
  case Nil
  then show ?case by simp
next
  case (Cons b bs)
  obtain evs r s1 where b: "loopBody prs wk b s = (evs, r, s1)" by (cases "loopBody prs wk b s")
  show ?case
  proof (cases r)
    case None
    obtain evs' r' s2 where t: "sendLoop prs wk bs s1 = (evs', r', s2)"
      by (cases "sendLoop prs wk bs s1")
    with Cons.prems b None have "r' = Some err" by simp
    with Cons.IH [of s1] t obtain m rf v where "CallPostResults m rf v (Some err) \<in> set evs'"
      by auto
    with b None t show ?thesis by auto
  next
    case (Some e)
    with Cons.prems b have "e = err" by simp
    with loopBody_return [of prs wk b s err] b Some show ?thesis by auto
  qed
qed

lemma nonempty_parsesAll:
  "len_map (clMap (snd (combineCLList prs cl))) \<noteq> 0 \<Longrightarrow> parsesAll prs cl"
proof (rule ccontr)
  assume a: "len_map (clMap (snd (combineCLList prs cl))) \<noteq> 0" and "\<not> parsesAll prs cl"
  from combineCLList_fail [OF this(2)] have "snd (combineCLList prs cl) = multiPartCLInfo_zero"
    by auto
  with a show False by (simp add: multiPartCLInfo_zero_def)
qed

lemma loopBody_proceeds:
  assumes "proceeds prs wk cl s"
  shows "loopBody prs wk cl s =
     ([CallListTestsToRun (fst (afterQuery wk s)),
       CallRemoveOutdatedBuilds (clMap (snd (combineCLList prs cl))) (fst (afterCancel prs wk cl s))]
        @ logErrors (fst (afterCancel prs wk cl s))
        @ [Stdout (''Sending '' @ clString (snd (combineCLList prs cl)) @ '' to presubmit test''
                   @ newline),
           CallAddPresubmitTestBuild cl (fst (afterQuery wk s)) (fst (afterSubmit prs wk cl s))]
        @ (case fst (afterSubmit prs wk cl s) of
             Some e \<Rightarrow> [Stderr (''addPresubmitTestBuild failed: '' @ errorString e @ newline)]
           | None \<Rightarrow> []),
      None,
      (case fst (afterSubmit prs wk cl s) of
         Some e \<Rightarrow> s\<lparr>worker := snd (afterSubmit prs wk cl s)\<rparr>
       | None \<Rightarrow> s\<lparr>worker := snd (afterSubmit prs wk cl s),
                    clsSent := clsSent s + int (length cl)\<rparr>))"
proof -
  from assms have ne: "len_map (clMap (snd (combineCLList prs cl))) \<noteq> 0"
    by (simp add: proceeds_def Let_def)
  then have "parsesAll prs cl" by (rule nonempty_parsesAll)
  then obtain cls where c: "combineCLList prs cl = ([], cls)"
    using combineCLList_ok by simp
  from assms c have p: "len_map (clMap cls) \<noteq> 0" "\<not> skipPresubmitTest cls"
    "fst (afterQuery wk s) \<noteq> []" "hasTrustedOwner cls"
    by (simp_all add: proceeds_def Let_def afterQuery_def)
  have q: "listTestsToRun wk (worker s) = (fst (afterQuery wk s), snd (afterQuery wk s))"
    by (simp add: afterQuery_def)
  have r: "removeOutdatedBuilds wk (clMap cls) (snd (afterQuery wk s)) =
             (fst (afterCancel prs wk cl s), snd (afterCancel prs wk cl s))"
    by (simp add: afterCancel_def c)
  have a: "addPresubmitTestBuild wk cl (fst (afterQuery wk s)) (snd (afterCancel prs wk cl s)) =
             (fst (afterSubmit prs wk cl s), snd (afterSubmit prs wk cl s))"
    by (simp add: afterSubmit_def)
  from loopBody_proceed [OF p(1) c p(2) q p(3) p(4) r a] show ?thesis by (simp add: c)
qed

lemma sendLoop_continue:
  "fst (snd (loopBody prs wk cl s)) = None \<Longrightarrow>
   sendLoop prs wk (cl # rest) s =
     (fst (loopBody prs wk cl s) @ fst (sendLoop prs wk rest (snd (snd (loopBody prs wk cl s)))),
      snd (sendLoop prs wk rest (snd (snd (loopBody prs wk cl s)))))"
  by (cases "loopBody prs wk cl s") (auto split: prod.splits)

lemma loopBody_fail:
  assumes "\<not> parsesAll prs cl"
  shows "\<exists>c err. c \<in> set cl \<and> prs (Reference c) = Inl err \<and>
     loopBody prs wk cl s =
       ([Stderr (errorString err @ newline), Stdout (''Skipping empty CL set'' @ newline)],
        None, s)"
proof -
  from combineCLList_fail [OF assms] obtain c err where
    c: "c \<in> set cl" "prs (Reference c) = Inl err"
      "combineCLList prs cl = ([Stderr (errorString err @ newline)], multiPartCLInfo_zero)"
    by blast
  from c(3) have "loopBody prs wk cl s =
       ([Stderr (errorString err @ newline), Stdout (''Skipping empty CL set'' @ newline)],
        None, s)"
    by (simp add: loopBody_def multiPartCLInfo_zero_def)
  with c(1,2) show ?thesis by blast
qed

lemma loopBody_Nil:
  "loopBody prs wk [] s = ([Stdout (''Skipping empty CL set'' @ newline)], None, s)"
  by (simp add: loopBody_def combineCLList_def multiPartCLInfo_zero_def)

lemma filter_logErrors:
  "filter isPost (logErrors errs) = [] \<and> filter isAddBuild (logErrors errs) = []
   \<and> filter isListTests (logErrors errs) = []"
  by (induction errs rule: logErrors.induct) simp_all

section \<open>The trust predicate\<close>

lemma HasSuffix_iff: "HasSuffix s suf \<longleftrightarrow> (\<exists>p. s = p @ suf)"
proof
  assume h: "HasSuffix s suf"
  then have "s = take (length s - length suf) s @ suf"
    by (metis HasSuffix_def append_take_drop_id)
  then show "\<exists>p. s = p @ suf" ..
next
  assume "\<exists>p. s = p @ suf"
  then obtain p where "s = p @ suf" ..
  then show "HasSuffix s suf" by (simp add: HasSuffix_def)
qed

text \<open>
  C8. \<open>isTrustedContributor\<close> holds exactly for the strings that end with the literal
  bytes \<open>@google.com\<close>; nothing is normalised, so an upper-case domain or a trailing blank
  makes the address untrusted. \<open>a@google.com\<close> is trusted, \<open>a@evil.com\<close> and
  \<open>a@GOOGLE.COM\<close> are not.
\<close>

theorem isTrustedContributor_suffix:
  "(isTrustedContributor e \<longleftrightarrow> (\<exists>p. e = p @ ''@google.com''))
   \<and> isTrustedContributor ''a@google.com''
   \<and> \<not> isTrustedContributor ''a@evil.com''
   \<and> \<not> isTrustedContributor ''a@GOOGLE.COM''
   \<and> \<not> isTrustedContributor ''a@google.com ''
   \<and> \<not> isTrustedContributor ''a@Google.com''"
  by (simp add: isTrustedContributor_def HasSuffix_iff)

section \<open>The grouper\<close>

text \<open>
  C2. When every reference of the input list parses, the group that \<open>combineCLList\<close>
  returns has \<open>skipPresubmitTest\<close> set exactly when some record carries the skip directive,
  has \<open>hasTrustedOwner\<close> set exactly when the owner of every record is trusted, and its
  label is the records' \<open>change/patchset\<close> strings in input order, joined with a comma and
  a blank. For two records whose references parse to (1, 5) and (2, 7), in that order, the
  label is \<open>1/5, 2/7\<close>.
\<close>

theorem combineCLList_flags_label:
  "(parsesAll prs cl \<longrightarrow>
      (skipPresubmitTest (snd (combineCLList prs cl))
         \<longleftrightarrow> (\<exists>c \<in> set cl. PresubmitTest c = PresubmitTestTypeNone))
    \<and> (hasTrustedOwner (snd (combineCLList prs cl))
         \<longleftrightarrow> (\<forall>c \<in> set cl. isTrustedContributor (OwnerEmail c)))
    \<and> clString (snd (combineCLList prs cl)) = Join (map (changeLabel prs) cl) '', '')
   \<and> (prs (Reference c1) = Inr (1, 5) \<and> prs (Reference c2) = Inr (2, 7) \<longrightarrow>
        clString (snd (combineCLList prs [c1, c2])) = ''1/5, 2/7'')"
proof (intro conjI impI)
  assume ok: "parsesAll prs cl"
  show "skipPresubmitTest (snd (combineCLList prs cl))
         \<longleftrightarrow> (\<exists>c \<in> set cl. PresubmitTest c = PresubmitTestTypeNone)"
    by (simp add: combineCLList_ok [OF ok])
  show "hasTrustedOwner (snd (combineCLList prs cl))
         \<longleftrightarrow> (\<forall>c \<in> set cl. isTrustedContributor (OwnerEmail c))"
    by (simp add: combineCLList_ok [OF ok])
  show "clString (snd (combineCLList prs cl)) = Join (map (changeLabel prs) cl) '', ''"
    by (simp add: combineCLList_ok [OF ok])
next
  assume h: "prs (Reference c1) = Inr (1, 5) \<and> prs (Reference c2) = Inr (2, 7)"
  then have ok: "parsesAll prs [c1, c2]" by (simp add: parsesAll_def)
  from h show "clString (snd (combineCLList prs [c1, c2])) = ''1/5, 2/7''"
    by (simp add: combineCLList_ok [OF ok] fmt_defs)
qed

theorem combineCLList_flags_label_witness:
  "parsesAll mockParse [cl15, cl27skip]
   \<and> skipPresubmitTest (snd (combineCLList mockParse [cl15, cl27skip]))
   \<and> hasTrustedOwner (snd (combineCLList mockParse [cl15, cl27skip]))
   \<and> mockParse (Reference cl15) = Inr (1, 5) \<and> mockParse (Reference cl27skip) = Inr (2, 7)
   \<and> clString (snd (combineCLList mockParse [cl15, cl27skip])) = ''1/5, 2/7''"
proof -
  have ok: "parsesAll mockParse [cl15, cl27skip]"
    by (simp add: parsesAll_def mock_defs)
  have p: "mockParse (Reference cl15) = Inr (1, 5) \<and> mockParse (Reference cl27skip) = Inr (2, 7)"
    by (simp add: mock_defs)
  have t: "isTrustedContributor (OwnerEmail cl15) \<and> isTrustedContributor (OwnerEmail cl27skip)"
    by (simp add: mock_defs isTrustedContributor_def HasSuffix_def)
  have k: "PresubmitTest cl27skip = PresubmitTestTypeNone"
    by (simp add: mock_defs)
  note inst = combineCLList_flags_label [of mockParse "[cl15, cl27skip]" cl15 cl27skip]
  from inst ok k have a: "skipPresubmitTest (snd (combineCLList mockParse [cl15, cl27skip]))"
    by simp
  from inst ok t have b: "hasTrustedOwner (snd (combineCLList mockParse [cl15, cl27skip]))"
    by simp
  from inst p have c: "clString (snd (combineCLList mockParse [cl15, cl27skip])) = ''1/5, 2/7''"
    by blast
  from ok a b p c show ?thesis by blast
qed

section \<open>The decision for one group\<close>

text \<open>
  C1. For a non-empty batch whose references all parse, one iteration of the dispatcher makes
  exactly the workflow calls of one decision, chosen in a fixed order in which the first
  match wins. If the group asks to skip, the only call is \<open>postResults\<close> with the
  "tests skipped" message and verified true; the tests are not queried and trust is not
  looked at. Otherwise the tests are queried, and if there are none the only other call is
  \<open>postResults\<close> with the "no tests" message and verified true. Otherwise, if some owner is
  not trusted, the only other call is \<open>postResults\<close> with the message that asks for a
  human and verified false. Otherwise the iteration proceeds: it cancels the outdated builds
  and submits the batch.
\<close>

theorem decision_priority:
  assumes "parsesAll prs cl" and "cl \<noteq> []"
  shows "portCalls (fst (loopBody prs wk cl s)) =
     (let cls = snd (combineCLList prs cl);
          tests = fst (listTestsToRun wk (worker s));
          w1 = snd (listTestsToRun wk (worker s));
          errs = fst (removeOutdatedBuilds wk (clMap cls) w1);
          w2 = snd (removeOutdatedBuilds wk (clMap cls) w1)
      in if skipPresubmitTest cls then
           [CallPostResults (''Presubmit tests skipped.'' @ newline) (refs cls) True
              (fst (postResults wk (''Presubmit tests skipped.'' @ newline) (refs cls) True
                      (worker s)))]
         else if tests = [] then
           [CallListTestsToRun [],
            CallPostResults (''No tests found.'' @ newline) (refs cls) True
              (fst (postResults wk (''No tests found.'' @ newline) (refs cls) True w1))]
         else if \<not> hasTrustedOwner cls then
           [CallListTestsToRun tests,
            CallPostResults (''Tell Freenode#fuchsia to kick the presubmit tests.'' @ newline)
              (refs cls) False
              (fst (postResults wk (''Tell Freenode#fuchsia to kick the presubmit tests.'' @ newline)
                      (refs cls) False w1))]
         else
           [CallListTestsToRun tests,
            CallRemoveOutdatedBuilds (clMap cls) errs,
            CallAddPresubmitTestBuild cl tests (fst (addPresubmitTestBuild wk cl tests w2))])"
proof -
  obtain cls where c: "combineCLList prs cl = ([], cls)"
    using combineCLList_ok [OF assms(1)] by simp
  have ne: "len_map (clMap cls) \<noteq> 0"
    using combineCLList_nonempty [OF assms] c by simp
  show ?thesis
    using ne c
    by (simp add: loopBody_def portCalls_def portCalls_logErrors [unfolded portCalls_def] Let_def
        split: prod.splits option.splits)
qed

theorem decision_priority_witness:
  "parsesAll mockParse [cl15, clSkipEvil] \<and> [cl15, clSkipEvil] \<noteq> []
   \<and> portCalls (fst (loopBody mockParse (mockWorkflow [] [] None) [cl15, clSkipEvil]
                        (sender0 [] [])))
       = [CallPostResults (''Presubmit tests skipped.'' @ newline)
            [''refs/changes/01/1/5'', ''refs/changes/02/2/7''] True None]"
proof -
  have ok: "parsesAll mockParse [cl15, clSkipEvil]"
    by (simp add: parsesAll_def mock_defs)
  have ne: "[cl15, clSkipEvil] \<noteq> []" by simp
  have "portCalls (fst (loopBody mockParse (mockWorkflow [] [] None) [cl15, clSkipEvil]
                        (sender0 [] [])))
       = [CallPostResults (''Presubmit tests skipped.'' @ newline)
            [''refs/changes/01/1/5'', ''refs/changes/02/2/7''] True None]"
    unfolding decision_priority [OF ok ne]
    by (simp add: eval_defs mock_defs)
  with ok ne show ?thesis by blast
qed

section \<open>Failures of the workflow and malformed input\<close>

text \<open>
  C3. Suppose the run has come to batch \<open>cl\<close> without returning (the batches \<open>pre\<close>
  before it were processed and left the state \<open>s1\<close>), and a call of \<open>postResults\<close>
  made while processing \<open>cl\<close> returns the failure \<open>err\<close>. Then the run returns
  \<open>err\<close>, its last event is that call, and its result is the same whatever the batches
  \<open>rest\<close> after \<open>cl\<close> are: none of them is processed. And a run in which no call of
  \<open>postResults\<close> fails returns success.
\<close>

theorem postResults_failure_aborts:
  "(clLists s = pre @ cl # rest \<and> sendLoop prs wk pre s = (evs0, None, s1)
      \<and> CallPostResults m r v (Some err) \<in> set (fst (loopBody prs wk cl s1))
    \<longrightarrow> sendCLsToPresubmitTest prs wk s
          = (evs0 @ fst (loopBody prs wk cl s1), Some err, snd (snd (loopBody prs wk cl s1)))
        \<and> last (evs0 @ fst (loopBody prs wk cl s1)) = CallPostResults m r v (Some err))
   \<and> ((\<forall>e \<in> set (fst (sendCLsToPresubmitTest prs wk s)). \<not> isFailedPost e)
        \<longrightarrow> fst (snd (sendCLsToPresubmitTest prs wk s)) = None)"
proof (intro conjI impI)
  assume h: "clLists s = pre @ cl # rest \<and> sendLoop prs wk pre s = (evs0, None, s1)
      \<and> CallPostResults m r v (Some err) \<in> set (fst (loopBody prs wk cl s1))"
  then have p: "fst (snd (loopBody prs wk cl s1)) = Some err"
    and l: "last (fst (loopBody prs wk cl s1)) = CallPostResults m r v (Some err)"
    using loopBody_post by blast+
  from h have ne: "fst (loopBody prs wk cl s1) \<noteq> []" by auto
  obtain evs1 s2 where b: "loopBody prs wk cl s1 = (evs1, Some err, s2)"
    using p by (cases "loopBody prs wk cl s1") auto
  from h b show "sendCLsToPresubmitTest prs wk s
          = (evs0 @ fst (loopBody prs wk cl s1), Some err, snd (snd (loopBody prs wk cl s1)))"
    by (simp add: sendCLsToPresubmitTest_def sendLoop_append)
  from l ne show "last (evs0 @ fst (loopBody prs wk cl s1)) = CallPostResults m r v (Some err)"
    by simp
next
  assume h: "\<forall>e \<in> set (fst (sendCLsToPresubmitTest prs wk s)). \<not> isFailedPost e"
  show "fst (snd (sendCLsToPresubmitTest prs wk s)) = None"
  proof (cases "fst (snd (sendCLsToPresubmitTest prs wk s))")
    case None
    then show ?thesis .
  next
    case (Some err)
    then obtain m r v where
      "CallPostResults m r v (Some err) \<in> set (fst (sendCLsToPresubmitTest prs wk s))"
      using sendLoop_return [of prs wk "clLists s" s err]
      by (auto simp: sendCLsToPresubmitTest_def)
    with h have "\<not> isFailedPost (CallPostResults m r v (Some err))" by blast
    then show ?thesis by simp
  qed
qed

theorem postResults_failure_aborts_witness:
  "clLists (sender0 [[cl15], [cl27], [cl15, cl27]] [None, Some (Error ''boom'')])
     = [[cl15]] @ [cl27] # [[cl15, cl27]]
   \<and> sendLoop mockParse (mockWorkflow [] [] None) [[cl15]]
         (sender0 [[cl15], [cl27], [cl15, cl27]] [None, Some (Error ''boom'')])
       = ([CallListTestsToRun [],
           Stdout (''Skipping 1/5 because no tests found'' @ newline),
           CallPostResults (''No tests found.'' @ newline) [''refs/changes/01/1/5''] True None],
          None, sender0 [[cl15], [cl27], [cl15, cl27]] [Some (Error ''boom'')])
   \<and> sendCLsToPresubmitTest mockParse (mockWorkflow [] [] None)
         (sender0 [[cl15], [cl27], [cl15, cl27]] [None, Some (Error ''boom'')])
       = ([CallListTestsToRun [],
           Stdout (''Skipping 1/5 because no tests found'' @ newline),
           CallPostResults (''No tests found.'' @ newline) [''refs/changes/01/1/5''] True None,
           CallListTestsToRun [],
           Stdout (''Skipping 2/7 because no tests found'' @ newline),
           CallPostResults (''No tests found.'' @ newline) [''refs/changes/02/2/7''] True
             (Some (Error ''boom''))],
          Some (Error ''boom''), sender0 [[cl15], [cl27], [cl15, cl27]] [])
   \<and> filter isFailedPost (fst (sendCLsToPresubmitTest mockParse (mockWorkflow [] [] None)
                                 (sender0 [[cl15], [cl27]] []))) = []
   \<and> fst (snd (sendCLsToPresubmitTest mockParse (mockWorkflow [] [] None)
                  (sender0 [[cl15], [cl27]] []))) = None"
proof -
  let ?wk = "mockWorkflow [] [] None"
  let ?s = "sender0 [[cl15], [cl27], [cl15, cl27]] [None, Some (Error ''boom'')]"
  let ?s1 = "sender0 [[cl15], [cl27], [cl15, cl27]] [Some (Error ''boom'')]"
  let ?evs0 = "[CallListTestsToRun [],
           Stdout (''Skipping 1/5 because no tests found'' @ newline),
           CallPostResults (''No tests found.'' @ newline) [''refs/changes/01/1/5''] True None]"
  have b1: "loopBody mockParse ?wk [cl15] ?s = (?evs0, None, ?s1)"
    by (simp add: run_defs)
  have b2: "loopBody mockParse ?wk [cl27] ?s1 =
      ([CallListTestsToRun [],
        Stdout (''Skipping 2/7 because no tests found'' @ newline),
        CallPostResults (''No tests found.'' @ newline) [''refs/changes/02/2/7''] True
          (Some (Error ''boom''))],
       Some (Error ''boom''), sender0 [[cl15], [cl27], [cl15, cl27]] [])"
    by (simp add: run_defs)
  have h1: "clLists ?s = [[cl15]] @ [cl27] # [[cl15, cl27]]"
    by (simp add: sender0_def)
  have h2: "sendLoop mockParse ?wk [[cl15]] ?s = (?evs0, None, ?s1)"
    by (simp add: b1)
  have h3: "CallPostResults (''No tests found.'' @ newline) [''refs/changes/02/2/7''] True
              (Some (Error ''boom'')) \<in> set (fst (loopBody mockParse ?wk [cl27] ?s1))"
    by (simp add: b2)
  let ?t = "sender0 [[cl15], [cl27]] []"
  have c1: "loopBody mockParse ?wk [cl15] ?t = (?evs0, None, ?t)"
    by (simp add: run_defs)
  have c2: "loopBody mockParse ?wk [cl27] ?t =
      ([CallListTestsToRun [],
        Stdout (''Skipping 2/7 because no tests found'' @ newline),
        CallPostResults (''No tests found.'' @ newline) [''refs/changes/02/2/7''] True None],
       None, ?t)"
    by (simp add: run_defs)
  have h4: "\<forall>e \<in> set (fst (sendCLsToPresubmitTest mockParse ?wk ?t)). \<not> isFailedPost e"
    by (simp add: sendCLsToPresubmitTest_def c1 c2) (simp add: sender0_def c1 [unfolded sender0_def] c2 [unfolded sender0_def])
  note a = postResults_failure_aborts [where s = "?s" and pre = "[[cl15]]" and cl = "[cl27]"
      and rest = "[[cl15, cl27]]" and prs = mockParse and wk = "?wk" and ?evs0.0 = "?evs0"
      and ?s1.0 = "?s1" and m = "''No tests found.'' @ newline" and r = "[''refs/changes/02/2/7'']"
      and v = True and err = "Error ''boom''"]
  from a h1 h2 h3 have r1: "sendCLsToPresubmitTest mockParse ?wk ?s
          = (?evs0 @ fst (loopBody mockParse ?wk [cl27] ?s1), Some (Error ''boom''),
             snd (snd (loopBody mockParse ?wk [cl27] ?s1)))"
    by blast
  from postResults_failure_aborts [where s = "?t" and prs = mockParse and wk = "?wk"] h4
  have r2: "fst (snd (sendCLsToPresubmitTest mockParse ?wk ?t)) = None"
    by blast
  from h4 have h5: "filter isFailedPost (fst (sendCLsToPresubmitTest mockParse ?wk ?t)) = []"
    by (simp add: filter_empty_conv)
  from h1 h2 r1 [unfolded b2] h5 r2 show ?thesis by simp
qed

text \<open>
  C4. When some reference of a batch does not parse, \<open>combineCLList\<close> returns the zero
  group: nil map, empty label, no references, nothing of the records before the malformed
  one. The dispatcher logs the parse error and the skip, calls no operation of the workflow
  for the batch, changes neither the worker nor the counter, and goes on with the next batch.
\<close>

theorem malformed_batch_skipped:
  assumes "\<not> parsesAll prs cl"
  shows "snd (combineCLList prs cl) = multiPartCLInfo_zero
     \<and> clMap (snd (combineCLList prs cl)) = None
     \<and> clString (snd (combineCLList prs cl)) = []
     \<and> refs (snd (combineCLList prs cl)) = []
     \<and> (\<exists>c err. c \<in> set cl \<and> prs (Reference c) = Inl err
          \<and> fst (loopBody prs wk cl s) =
              [Stderr (errorString err @ newline), Stdout (''Skipping empty CL set'' @ newline)])
     \<and> portCalls (fst (loopBody prs wk cl s)) = []
     \<and> snd (loopBody prs wk cl s) = (None, s)
     \<and> sendLoop prs wk (cl # rest) s =
         (fst (loopBody prs wk cl s) @ fst (sendLoop prs wk rest s),
          snd (sendLoop prs wk rest s))"
proof -
  from combineCLList_fail [OF assms]
  have z: "snd (combineCLList prs cl) = multiPartCLInfo_zero" by auto
  from loopBody_fail [OF assms, of wk s] obtain c err where
    c: "c \<in> set cl" "prs (Reference c) = Inl err"
    and b: "loopBody prs wk cl s =
       ([Stderr (errorString err @ newline), Stdout (''Skipping empty CL set'' @ newline)],
        None, s)"
    by blast
  have 1: "clMap (snd (combineCLList prs cl)) = None"
    "clString (snd (combineCLList prs cl)) = []" "refs (snd (combineCLList prs cl)) = []"
    by (simp_all add: z multiPartCLInfo_zero_def)
  have 2: "portCalls (fst (loopBody prs wk cl s)) = []" by (simp add: b portCalls_def)
  have 3: "snd (loopBody prs wk cl s) = (None, s)" by (simp add: b)
  have 4: "sendLoop prs wk (cl # rest) s =
         (fst (loopBody prs wk cl s) @ fst (sendLoop prs wk rest s),
          snd (sendLoop prs wk rest s))"
    using sendLoop_continue [of prs wk cl s rest] by (simp add: 3)
  have 5: "\<exists>c err. c \<in> set cl \<and> prs (Reference c) = Inl err
          \<and> fst (loopBody prs wk cl s) =
              [Stderr (errorString err @ newline), Stdout (''Skipping empty CL set'' @ newline)]"
    using c b by auto
  from z 1 2 3 4 5 show ?thesis by blast
qed

theorem malformed_batch_skipped_witness:
  "\<not> parsesAll mockParse [cl15, clBad]
   \<and> snd (combineCLList mockParse [cl15, clBad]) = multiPartCLInfo_zero
   \<and> portCalls (fst (loopBody mockParse (mockWorkflow [''unit''] [] None) [cl15, clBad]
                        (sender0 [] []))) = []
   \<and> snd (loopBody mockParse (mockWorkflow [''unit''] [] None) [cl15, clBad] (sender0 [] []))
       = (None, sender0 [] [])"
proof -
  have h: "\<not> parsesAll mockParse [cl15, clBad]"
    by (simp add: parsesAll_def mock_defs)
  from malformed_batch_skipped [OF h, of "mockWorkflow [''unit''] [] None" "sender0 [] []"] h
  show ?thesis by blast
qed

text \<open>
  C5. In an iteration that proceeds, whatever list of failures \<open>removeOutdatedBuilds\<close>
  returns, each failure in it is written to standard error, \<open>addPresubmitTestBuild\<close> is
  then called with the batch and the queried tests, the iteration does not return, and the
  loop goes on with the batches that follow.
\<close>

theorem removeOutdatedBuilds_not_fatal:
  assumes "proceeds prs wk cl s"
  shows "portCalls (fst (loopBody prs wk cl s)) =
           [CallListTestsToRun (fst (afterQuery wk s)),
            CallRemoveOutdatedBuilds (clMap (snd (combineCLList prs cl)))
              (fst (afterCancel prs wk cl s)),
            CallAddPresubmitTestBuild cl (fst (afterQuery wk s)) (fst (afterSubmit prs wk cl s))]
         \<and> (\<forall>e. Some e \<in> set (fst (afterCancel prs wk cl s)) \<longrightarrow>
               Stderr (errorString e @ newline) \<in> set (fst (loopBody prs wk cl s)))
         \<and> fst (snd (loopBody prs wk cl s)) = None
         \<and> sendLoop prs wk (cl # rest) s =
             (fst (loopBody prs wk cl s)
                @ fst (sendLoop prs wk rest (snd (snd (loopBody prs wk cl s)))),
              snd (sendLoop prs wk rest (snd (snd (loopBody prs wk cl s)))))"
proof -
  note b = loopBody_proceeds [OF assms]
  have 1: "fst (snd (loopBody prs wk cl s)) = None" by (simp add: b)
  have 2: "portCalls (fst (loopBody prs wk cl s)) =
           [CallListTestsToRun (fst (afterQuery wk s)),
            CallRemoveOutdatedBuilds (clMap (snd (combineCLList prs cl)))
              (fst (afterCancel prs wk cl s)),
            CallAddPresubmitTestBuild cl (fst (afterQuery wk s)) (fst (afterSubmit prs wk cl s))]"
    by (simp add: b portCalls_def portCalls_logErrors [unfolded portCalls_def]
        split: option.splits)
  have 3: "\<forall>e. Some e \<in> set (fst (afterCancel prs wk cl s)) \<longrightarrow>
               Stderr (errorString e @ newline) \<in> set (fst (loopBody prs wk cl s))"
    by (simp add: b logErrors_mem)
  from 1 2 3 sendLoop_continue [OF 1] show ?thesis by blast
qed

theorem removeOutdatedBuilds_not_fatal_witness:
  "proceeds mockParse (mockWorkflow [''unit''] [Some (Error ''e1''), None, Some (Error ''e2'')] None)
     [cl15, cl27] (sender0 [] [])
   \<and> portCalls (fst (loopBody mockParse
          (mockWorkflow [''unit''] [Some (Error ''e1''), None, Some (Error ''e2'')] None)
          [cl15, cl27] (sender0 [] [])))
       = [CallListTestsToRun [''unit''],
          CallRemoveOutdatedBuilds (Some [(1, 5), (2, 7)])
            [Some (Error ''e1''), None, Some (Error ''e2'')],
          CallAddPresubmitTestBuild [cl15, cl27] [''unit''] None]
   \<and> Stderr (''e1'' @ newline) \<in> set (fst (loopBody mockParse
          (mockWorkflow [''unit''] [Some (Error ''e1''), None, Some (Error ''e2'')] None)
          [cl15, cl27] (sender0 [] [])))
   \<and> Stderr (''e2'' @ newline) \<in> set (fst (loopBody mockParse
          (mockWorkflow [''unit''] [Some (Error ''e1''), None, Some (Error ''e2'')] None)
          [cl15, cl27] (sender0 [] [])))
   \<and> fst (snd (loopBody mockParse
          (mockWorkflow [''unit''] [Some (Error ''e1''), None, Some (Error ''e2'')] None)
          [cl15, cl27] (sender0 [] []))) = None"
proof -
  let ?wk = "mockWorkflow [''unit''] [Some (Error ''e1''), None, Some (Error ''e2'')] None"
  let ?b = "loopBody mockParse ?wk [cl15, cl27] (sender0 [] [])"
  have h: "proceeds mockParse ?wk [cl15, cl27] (sender0 [] [])"
    by (simp add: proceeds_def eval_defs mock_defs)
  note a = removeOutdatedBuilds_not_fatal [OF h]
  have q: "fst (afterQuery ?wk (sender0 [] [])) = [''unit'']"
    by (simp add: call_defs mock_defs)
  have c: "fst (afterCancel mockParse ?wk [cl15, cl27] (sender0 [] []))
             = [Some (Error ''e1''), None, Some (Error ''e2'')]"
    by (simp add: call_defs mock_defs)
  have m: "clMap (snd (combineCLList mockParse [cl15, cl27])) = Some [(1, 5), (2, 7)]"
    by (simp add: eval_defs mock_defs)
  have u: "fst (afterSubmit mockParse ?wk [cl15, cl27] (sender0 [] [])) = None"
    by (simp add: call_defs mock_defs)
  from a have 1: "portCalls (fst ?b) = [CallListTestsToRun [''unit''],
          CallRemoveOutdatedBuilds (Some [(1, 5), (2, 7)])
            [Some (Error ''e1''), None, Some (Error ''e2'')],
          CallAddPresubmitTestBuild [cl15, cl27] [''unit''] None]"
    by (simp add: q c m u)
  from a have 2: "\<forall>e. Some e \<in> set (fst (afterCancel mockParse ?wk [cl15, cl27] (sender0 [] [])))
      \<longrightarrow> Stderr (errorString e @ newline) \<in> set (fst ?b)"
    by blast
  from 2 [rule_format, of "Error ''e1''"] have 3: "Stderr (''e1'' @ newline) \<in> set (fst ?b)"
    by (simp add: c)
  from 2 [rule_format, of "Error ''e2''"] have 4: "Stderr (''e2'' @ newline) \<in> set (fst ?b)"
    by (simp add: c)
  from a have 5: "fst (snd ?b) = None" by blast
  from h 1 3 4 5 show ?thesis by blast
qed

text \<open>
  C6. In an iteration that proceeds and whose call of \<open>addPresubmitTestBuild\<close> returns
  the failure \<open>e\<close>: that call is the only submission (nothing is retried), the failure is
  the last line written, to standard error; \<open>postResults\<close> is not called; the counter
  \<open>clsSent\<close> keeps its value; the iteration does not return, and the loop goes on with
  the batches that follow, so the failure is not what the run returns.
\<close>

theorem addPresubmitTestBuild_failure_continues:
  assumes "proceeds prs wk cl s" and "fst (afterSubmit prs wk cl s) = Some e"
  shows "filter isAddBuild (fst (loopBody prs wk cl s))
           = [CallAddPresubmitTestBuild cl (fst (afterQuery wk s)) (Some e)]
     \<and> last (fst (loopBody prs wk cl s))
           = Stderr (''addPresubmitTestBuild failed: '' @ errorString e @ newline)
     \<and> filter isPost (fst (loopBody prs wk cl s)) = []
     \<and> clsSent (snd (snd (loopBody prs wk cl s))) = clsSent s
     \<and> fst (snd (loopBody prs wk cl s)) = None
     \<and> sendLoop prs wk (cl # rest) s =
         (fst (loopBody prs wk cl s)
            @ fst (sendLoop prs wk rest (snd (snd (loopBody prs wk cl s)))),
          snd (sendLoop prs wk rest (snd (snd (loopBody prs wk cl s)))))"
proof -
  note b = loopBody_proceeds [OF assms(1)]
  have 1: "filter isAddBuild (fst (loopBody prs wk cl s))
           = [CallAddPresubmitTestBuild cl (fst (afterQuery wk s)) (Some e)]"
    by (simp add: b assms(2) filter_logErrors)
  have 2: "last (fst (loopBody prs wk cl s))
           = Stderr (''addPresubmitTestBuild failed: '' @ errorString e @ newline)"
    by (simp add: b assms(2))
  have 3: "filter isPost (fst (loopBody prs wk cl s)) = []"
    by (simp add: b assms(2) filter_logErrors)
  have 4: "clsSent (snd (snd (loopBody prs wk cl s))) = clsSent s"
    by (simp add: b assms(2))
  have 5: "fst (snd (loopBody prs wk cl s)) = None"
    by (simp add: b)
  from 1 2 3 4 5 sendLoop_continue [OF 5] show ?thesis by blast
qed

theorem addPresubmitTestBuild_failure_continues_witness:
  "proceeds mockParse (mockWorkflow [''unit''] [] (Some (Error ''busy''))) [cl15, cl27]
     (sender0 [] [])
   \<and> fst (afterSubmit mockParse (mockWorkflow [''unit''] [] (Some (Error ''busy'')))
            [cl15, cl27] (sender0 [] [])) = Some (Error ''busy'')
   \<and> last (fst (loopBody mockParse (mockWorkflow [''unit''] [] (Some (Error ''busy'')))
                  [cl15, cl27] (sender0 [] [])))
       = Stderr (''addPresubmitTestBuild failed: busy'' @ newline)
   \<and> filter isPost (fst (loopBody mockParse (mockWorkflow [''unit''] [] (Some (Error ''busy'')))
                          [cl15, cl27] (sender0 [] []))) = []
   \<and> clsSent (snd (snd (loopBody mockParse (mockWorkflow [''unit''] [] (Some (Error ''busy'')))
                          [cl15, cl27] (sender0 [] [])))) = 0
   \<and> fst (snd (loopBody mockParse (mockWorkflow [''unit''] [] (Some (Error ''busy'')))
                  [cl15, cl27] (sender0 [] []))) = None"
proof -
  let ?wk = "mockWorkflow [''unit''] [] (Some (Error ''busy''))"
  let ?b = "loopBody mockParse ?wk [cl15, cl27] (sender0 [] [])"
  have h: "proceeds mockParse ?wk [cl15, cl27] (sender0 [] [])"
    by (simp add: proceeds_def eval_defs mock_defs)
  have u: "fst (afterSubmit mockParse ?wk [cl15, cl27] (sender0 [] [])) = Some (Error ''busy'')"
    by (simp add: call_defs mock_defs)
  note a = addPresubmitTestBuild_failure_continues [OF h u]
  from a have 1: "last (fst ?b) = Stderr (''addPresubmitTestBuild failed: busy'' @ newline)"
    by simp
  from a have 2: "filter isPost (fst ?b) = []" by blast
  from a have 3: "clsSent (snd (snd ?b)) = 0" by (simp add: sender0_def)
  from a have 4: "fst (snd ?b) = None" by blast
  from h u 1 2 3 4 show ?thesis by blast
qed

section \<open>Dispatching a trusted group\<close>




section \<open>The query for the tests\<close>

text \<open>
  C9, as amended. While one batch is processed, \<open>listTestsToRun\<close> is called exactly once,
  on the worker's state at that moment (nothing is kept from an earlier batch), when every
  reference of the batch parses, the batch is not empty and no record carries the skip
  directive. For a batch with a malformed reference, an empty batch, and a batch in which
  a record asks to skip, it is not called.
\<close>

theorem tests_queried_once_unless_skipped:
  "filter isListTests (fst (loopBody prs wk cl s)) =
     (if \<not> parsesAll prs cl \<or> cl = []
          \<or> (\<exists>c \<in> set cl. PresubmitTest c = PresubmitTestTypeNone)
      then []
      else [CallListTestsToRun (fst (listTestsToRun wk (worker s)))])"
proof (cases "parsesAll prs cl \<and> cl \<noteq> []")
  case False
  then consider "\<not> parsesAll prs cl" | "cl = []" by blast
  then show ?thesis
  proof cases
    case 1
    from loopBody_fail [OF 1, of wk s] obtain err where
      "fst (loopBody prs wk cl s) =
         [Stderr (errorString err @ newline), Stdout (''Skipping empty CL set'' @ newline)]"
      by auto
    with 1 show ?thesis by simp
  next
    case 2
    then show ?thesis by (simp add: loopBody_Nil)
  qed
next
  case True
  then have ok: "parsesAll prs cl" and ne: "cl \<noteq> []" by simp_all
  note c = combineCLList_ok [OF ok]
  have n: "len_map (clMap (snd (combineCLList prs cl))) \<noteq> 0"
    by (rule combineCLList_nonempty [OF ok ne])
  show ?thesis
    using ok ne n
    by (simp add: loopBody_def c filter_logErrors split: prod.splits option.splits)
qed

theorem tests_queried_once_unless_skipped_witness:
  "filter isListTests (fst (loopBody mockParse (mockWorkflow [''unit''] [] None) [cl15, cl27evil]
                              (sender0 [] [])))
     = [CallListTestsToRun [''unit'']]
   \<and> filter isListTests (fst (loopBody mockParse (mockWorkflow [''unit''] [] None) [clBad]
                                (sender0 [] []))) = []"
proof -
  let ?wk = "mockWorkflow [''unit''] [] None"
  have h1: "parsesAll mockParse [cl15, cl27evil]" by (simp add: parsesAll_def mock_defs)
  have h2: "\<not> (\<exists>c \<in> set [cl15, cl27evil]. PresubmitTest c = PresubmitTestTypeNone)"
    by (simp add: mock_defs)
  have q: "fst (listTestsToRun ?wk (worker (sender0 [] []))) = [''unit'']"
    by (simp add: mock_defs)
  have h3: "\<not> parsesAll mockParse [clBad]" by (simp add: parsesAll_def mock_defs)
  from tests_queried_once_unless_skipped [of mockParse ?wk "[cl15, cl27evil]" "sender0 [] []"]
    h1 h2 q
  have 1: "filter isListTests (fst (loopBody mockParse ?wk [cl15, cl27evil] (sender0 [] [])))
     = [CallListTestsToRun [''unit'']]"
    by simp
  from tests_queried_once_unless_skipped [of mockParse ?wk "[clBad]" "sender0 [] []"] h3
  have 2: "filter isListTests (fst (loopBody mockParse ?wk [clBad] (sender0 [] []))) = []"
    by simp
  from 1 2 show ?thesis by blast
qed

text \<open>
  C9 as stated has the query made for every group. The batch made of the one record
  \<open>cl27skip\<close> is processed (its result is posted), and the tests are not queried.
\<close>

theorem tests_query_skipped_counterexample:
  "filter isListTests (fst (loopBody mockParse (mockWorkflow [''unit''] [] None) [cl27skip]
                              (sender0 [] []))) = []
   \<and> portCalls (fst (loopBody mockParse (mockWorkflow [''unit''] [] None) [cl27skip]
                        (sender0 [] [])))
       = [CallPostResults (''Presubmit tests skipped.'' @ newline) [''refs/changes/02/2/7'']
            True None]"
  by (simp add: run_defs portCalls_def)

section \<open>The zero group and the group of an empty batch\<close>

text \<open>
  C10. On a reference that does not parse \<open>combineCLList\<close> returns the zero value, whose
  \<open>hasTrustedOwner\<close> is false and whose map is nil; on the empty list it returns a group
  with \<open>hasTrustedOwner\<close> true, \<open>skipPresubmitTest\<close> false and an allocated map without
  entries. Both maps have length 0, so in both cases the iteration calls no operation of the
  workflow, and apart from the line that reports the parse error the iteration on the
  malformed batch does exactly what the iteration on the empty batch does: the different
  value of \<open>hasTrustedOwner\<close> shows nowhere.
\<close>

theorem zero_group_and_empty_group:
  "(\<not> parsesAll prs cl \<longrightarrow>
       snd (combineCLList prs cl) = multiPartCLInfo_zero
     \<and> portCalls (fst (loopBody prs wk cl s)) = []
     \<and> snd (loopBody prs wk cl s) = snd (loopBody prs wk [] s)
     \<and> (\<exists>err. fst (loopBody prs wk cl s)
                 = Stderr (errorString err @ newline) # fst (loopBody prs wk [] s)))
   \<and> \<not> hasTrustedOwner multiPartCLInfo_zero
   \<and> clMap multiPartCLInfo_zero = None
   \<and> len_map (clMap multiPartCLInfo_zero) = 0
   \<and> combineCLList prs [] =
       ([], \<lparr>clMap = Some [], clString = [], skipPresubmitTest = False,
             hasTrustedOwner = True, refs = []\<rparr>)
   \<and> len_map (clMap (snd (combineCLList prs []))) = 0
   \<and> loopBody prs wk [] s = ([Stdout (''Skipping empty CL set'' @ newline)], None, s)
   \<and> portCalls (fst (loopBody prs wk [] s)) = []"
proof -
  have 1: "\<not> parsesAll prs cl \<longrightarrow>
       snd (combineCLList prs cl) = multiPartCLInfo_zero
     \<and> portCalls (fst (loopBody prs wk cl s)) = []
     \<and> snd (loopBody prs wk cl s) = snd (loopBody prs wk [] s)
     \<and> (\<exists>err. fst (loopBody prs wk cl s)
                 = Stderr (errorString err @ newline) # fst (loopBody prs wk [] s))"
  proof
    assume h: "\<not> parsesAll prs cl"
    from combineCLList_fail [OF h]
    have z: "snd (combineCLList prs cl) = multiPartCLInfo_zero" by auto
    from loopBody_fail [OF h, of wk s] obtain err where
      b: "loopBody prs wk cl s =
         ([Stderr (errorString err @ newline), Stdout (''Skipping empty CL set'' @ newline)],
          None, s)"
      by blast
    have "portCalls (fst (loopBody prs wk cl s)) = []" by (simp add: b portCalls_def)
    moreover have "snd (loopBody prs wk cl s) = snd (loopBody prs wk [] s)"
      by (simp add: b loopBody_Nil)
    moreover have "fst (loopBody prs wk cl s)
                 = Stderr (errorString err @ newline) # fst (loopBody prs wk [] s)"
      by (simp add: b loopBody_Nil)
    then have "\<exists>err. fst (loopBody prs wk cl s)
                 = Stderr (errorString err @ newline) # fst (loopBody prs wk [] s)" ..
    ultimately show "snd (combineCLList prs cl) = multiPartCLInfo_zero
     \<and> portCalls (fst (loopBody prs wk cl s)) = []
     \<and> snd (loopBody prs wk cl s) = snd (loopBody prs wk [] s)
     \<and> (\<exists>err. fst (loopBody prs wk cl s)
                 = Stderr (errorString err @ newline) # fst (loopBody prs wk [] s))"
      using z by blast
  qed
  have 2: "\<not> hasTrustedOwner multiPartCLInfo_zero" "clMap multiPartCLInfo_zero = None"
    "len_map (clMap multiPartCLInfo_zero) = 0"
    by (simp_all add: multiPartCLInfo_zero_def)
  have 3: "combineCLList prs [] =
       ([], \<lparr>clMap = Some [], clString = [], skipPresubmitTest = False,
             hasTrustedOwner = True, refs = []\<rparr>)"
    by (simp add: combineCLList_def multiPartCLInfo_zero_def)
  have 4: "len_map (clMap (snd (combineCLList prs []))) = 0" by (simp add: 3)
  have 5: "portCalls (fst (loopBody prs wk [] s)) = []"
    by (simp add: loopBody_Nil portCalls_def)
  from 1 2 3 4 5 loopBody_Nil [of prs wk s] show ?thesis by blast
qed

theorem zero_group_and_empty_group_witness:
  "\<not> parsesAll mockParse [cl15, clBad]
   \<and> snd (combineCLList mockParse [cl15, clBad]) = multiPartCLInfo_zero
   \<and> portCalls (fst (loopBody mockParse (mockWorkflow [''unit''] [] None) [cl15, clBad]
                        (sender0 [] []))) = []
   \<and> snd (loopBody mockParse (mockWorkflow [''unit''] [] None) [cl15, clBad] (sender0 [] []))
       = snd (loopBody mockParse (mockWorkflow [''unit''] [] None) [] (sender0 [] []))"
proof -
  have h: "\<not> parsesAll mockParse [cl15, clBad]"
    by (simp add: parsesAll_def mock_defs)
  from zero_group_and_empty_group [of mockParse "[cl15, clBad]" "mockWorkflow [''unit''] [] None"
      "sender0 [] []"] h
  show ?thesis by blast
qed

end
